theory Spec2Isabelle
  imports Complex_Main
begin

section \<open>Stanza audio sequencer (src/components/CalaveraPlayer.tsx)\<close>

text \<open>
  The component keeps three pieces of React state (\<open>playState\<close>, \<open>currentStanzaIndex\<close>,
  \<open>showAll\<close>) and two refs (\<open>currentAudioRef\<close>, \<open>fallbackTimerRef\<close>). Every call of
  \<open>playStanza\<close> allocates one \<open>Audio\<close> element together with the closure variables
  \<open>index\<close>, \<open>audioLoaded\<close> and \<open>fallbackTimer\<close>; the element and its listeners are never
  removed, so the model keeps all of them in a list and an element is named by its position.
  Timers are kept the same way: \<open>setTimeout\<close> appends one, \<open>clearTimeout\<close> and firing
  switch its \<open>pending\<close> flag off.
\<close>

datatype PlayState = Idle | Playing | Paused | Ended

text \<open>
  One \<open>Audio\<close> element with the closure of the \<open>playStanza\<close> call that made it:
  \<open>stanza_index\<close> is the parameter \<open>index\<close>, \<open>asset_number\<close> the number in the path
  \<open>/sounds/stanza{index + 1}.wav\<close>, \<open>el_paused\<close> the element's \<open>paused\<close> attribute (true
  for a new element, changed here only by the component's own \<open>play()\<close> and \<open>pause()\<close>
  calls). A timer carries its delay and what its callback does: \<open>Probe a\<close> is the 500 ms
  check of element \<open>a\<close>, \<open>Advance i\<close> the fallback \<open>playStanza(i + 1)\<close>, \<open>DeferredPlay\<close>
  the \<open>handlePlay()\<close> that replay defers. \<open>console\<close> collects the \<open>console.warn\<close> calls,
  each with the stanza number it names.
\<close>

record audio_el =
  stanza_index :: nat
  asset_number :: nat
  el_paused :: bool
  audioLoaded :: bool
  fallbackTimer :: "nat option"

datatype callback = Probe nat | Advance nat | DeferredPlay

record timer =
  delay_ms :: nat
  callback :: callback
  pending :: bool

datatype warning = LoadWarning nat | PlayWarning nat | ResumeWarning

record player =
  playState :: PlayState
  currentStanzaIndex :: nat
  showAll :: bool
  currentAudioRef :: "nat option"
  fallbackTimerRef :: "nat option"
  audios :: "audio_el list"
  timers :: "timer list"
  console :: "warning list"

definition init :: player where
  "init = \<lparr>playState = Idle, currentStanzaIndex = 0, showAll = False,
     currentAudioRef = None, fallbackTimerRef = None, audios = [], timers = [], console = []\<rparr>"

subsection \<open>Host primitives\<close>

definition setTimeout :: "callback \<Rightarrow> nat \<Rightarrow> player \<Rightarrow> player" where
  "setTimeout cb ms s = s\<lparr>timers := timers s @ [\<lparr>delay_ms = ms, callback = cb, pending = True\<rparr>]\<rparr>"

definition clearTimeout :: "nat \<Rightarrow> player \<Rightarrow> player" where
  "clearTimeout t s =
     (if t < length (timers s)
      then s\<lparr>timers := (timers s)[t := (timers s ! t)\<lparr>pending := False\<rparr>]\<rparr>
      else s)"

definition new_Audio :: "nat \<Rightarrow> audio_el" where
  "new_Audio index = \<lparr>stanza_index = index, asset_number = index + 1, el_paused = True,
     audioLoaded = False, fallbackTimer = None\<rparr>"

definition audio_pause :: "nat \<Rightarrow> player \<Rightarrow> player" where
  "audio_pause a s =
     (if a < length (audios s)
      then s\<lparr>audios := (audios s)[a := (audios s ! a)\<lparr>el_paused := True\<rparr>]\<rparr>
      else s)"

definition audio_play :: "nat \<Rightarrow> player \<Rightarrow> player" where
  "audio_play a s =
     (if a < length (audios s)
      then s\<lparr>audios := (audios s)[a := (audios s ! a)\<lparr>el_paused := False\<rparr>]\<rparr>
      else s)"

subsection \<open>playStanza and the callbacks it registers\<close>

definition playStanza :: "string list list \<Rightarrow> nat \<Rightarrow> player \<Rightarrow> player" where
  "playStanza stanzas index s =
     (if index \<ge> length stanzas then s\<lparr>playState := Ended\<rparr>
      else setTimeout (Probe (length (audios s))) 500
             (s\<lparr>currentStanzaIndex := index,
                audios := audios s @ [new_Audio index],
                currentAudioRef := Some (length (audios s))\<rparr>))"

definition useFallback :: "nat \<Rightarrow> player \<Rightarrow> player" where
  "useFallback a s =
     (let t = length (timers s);
          s1 = setTimeout (Advance (stanza_index (audios s ! a))) 10000 s
      in s1\<lparr>audios := (audios s1)[a := (audios s1 ! a)\<lparr>fallbackTimer := Some t\<rparr>],
            fallbackTimerRef := Some t\<rparr>)"

definition handleEnded :: "string list list \<Rightarrow> nat \<Rightarrow> player \<Rightarrow> player" where
  "handleEnded stanzas a s =
     playStanza stanzas (stanza_index (audios s ! a) + 1)
       (case fallbackTimer (audios s ! a) of Some t \<Rightarrow> clearTimeout t s | None \<Rightarrow> s)"

definition handleError :: "nat \<Rightarrow> player \<Rightarrow> player" where
  "handleError a s =
     useFallback a (s\<lparr>console := console s @ [LoadWarning (stanza_index (audios s ! a) + 1)]\<rparr>)"

text \<open>
  \<open>audio.play()\<close> returns a promise; \<open>accepted\<close> says whether the host fulfils it. When it
  is rejected the \<open>catch\<close> handler runs, here in the same step.
\<close>

definition handleCanPlay :: "nat \<Rightarrow> bool \<Rightarrow> player \<Rightarrow> player" where
  "handleCanPlay a accepted s =
     (let s1 = s\<lparr>audios := (audios s)[a := (audios s ! a)\<lparr>audioLoaded := True\<rparr>]\<rparr>
      in if accepted then audio_play a s1
         else useFallback a
                (s1\<lparr>console := console s1 @ [PlayWarning (stanza_index (audios s ! a) + 1)]\<rparr>))"

definition probe :: "nat \<Rightarrow> player \<Rightarrow> player" where
  "probe a s = (if \<not> audioLoaded (audios s ! a) then handleError a s else s)"

subsection \<open>Button handlers\<close>

definition handlePlay :: "string list list \<Rightarrow> player \<Rightarrow> player" where
  "handlePlay stanzas s =
     playStanza stanzas 0 (s\<lparr>playState := Playing, currentStanzaIndex := 0, showAll := False\<rparr>)"

definition handlePause :: "player \<Rightarrow> player" where
  "handlePause s =
     (let s1 = (case currentAudioRef s of Some a \<Rightarrow> audio_pause a s | None \<Rightarrow> s);
          s2 = (case fallbackTimerRef s1 of Some t \<Rightarrow> clearTimeout t s1 | None \<Rightarrow> s1)
      in s2\<lparr>playState := Paused\<rparr>)"

definition handleResume :: "string list list \<Rightarrow> bool \<Rightarrow> player \<Rightarrow> player" where
  "handleResume stanzas accepted s =
     (let s1 = s\<lparr>playState := Playing\<rparr>
      in case currentAudioRef s1 of
           None \<Rightarrow> playStanza stanzas (currentStanzaIndex s) s1
         | Some a \<Rightarrow>
             if el_paused (audios s1 ! a)
             then (if accepted then audio_play a s1
                   else s1\<lparr>console := console s1 @ [ResumeWarning]\<rparr>)
             else playStanza stanzas (currentStanzaIndex s) s1)"

definition handleStop :: "player \<Rightarrow> player" where
  "handleStop s =
     (let s1 = (case currentAudioRef s of
                  Some a \<Rightarrow> (audio_pause a s)\<lparr>currentAudioRef := None\<rparr>
                | None \<Rightarrow> s);
          s2 = (case fallbackTimerRef s1 of Some t \<Rightarrow> clearTimeout t s1 | None \<Rightarrow> s1)
      in s2\<lparr>playState := Idle, currentStanzaIndex := 0\<rparr>)"

definition handleShowAll :: "player \<Rightarrow> player" where
  "handleShowAll s = s\<lparr>showAll := True\<rparr>"

definition handleBack :: "player \<Rightarrow> player" where
  "handleBack s = s\<lparr>showAll := False\<rparr>"

definition handleReplay :: "player \<Rightarrow> player" where
  "handleReplay s = setTimeout DeferredPlay 100 (handleStop s)"

subsection \<open>The event loop\<close>

definition runTimer :: "string list list \<Rightarrow> nat \<Rightarrow> player \<Rightarrow> player" where
  "runTimer stanzas t s =
     (let s1 = s\<lparr>timers := (timers s)[t := (timers s ! t)\<lparr>pending := False\<rparr>]\<rparr>
      in case callback (timers s ! t) of
           Probe a \<Rightarrow> probe a s1
         | Advance i \<Rightarrow> playStanza stanzas (i + 1) s1
         | DeferredPlay \<Rightarrow> handlePlay stanzas s1)"

text \<open>
  What the host can do to the component: press a button, deliver an event of an audio
  element, or let a pending timer expire (in any order: no clock is modelled). \<open>fire\<close>
  returns \<open>None\<close> for what cannot happen: a button is available only where the component
  renders it (in the show-all view an idle or ended player offers only the back button),
  an audio event needs the element to exist, and a timer fires only while it is pending.
  The cleanup on unmount is not part of the model.
\<close>

datatype event =
    ClickPlay | ClickPause | ClickResume bool | ClickStop
  | ClickShowAll | ClickBack | ClickReplay
  | AudioEnded nat | AudioCanPlay nat bool | AudioError nat
  | TimerFires nat

fun fire :: "string list list \<Rightarrow> event \<Rightarrow> player \<Rightarrow> player option" where
  "fire stanzas ClickPlay s =
     (if playState s = Idle \<and> \<not> showAll s then Some (handlePlay stanzas s) else None)"
| "fire stanzas ClickPause s =
     (if playState s = Playing then Some (handlePause s) else None)"
| "fire stanzas (ClickResume accepted) s =
     (if playState s = Paused then Some (handleResume stanzas accepted s) else None)"
| "fire stanzas ClickStop s =
     (if playState s = Playing \<or> playState s = Paused then Some (handleStop s) else None)"
| "fire stanzas ClickShowAll s =
     (if \<not> showAll s \<and> playState s \<noteq> Idle then Some (handleShowAll s) else None)"
| "fire stanzas ClickBack s =
     (if showAll s \<and> (playState s = Idle \<or> playState s = Ended)
      then Some (handleBack s) else None)"
| "fire stanzas ClickReplay s =
     (if \<not> showAll s \<and> playState s = Ended then Some (handleReplay s) else None)"
| "fire stanzas (AudioEnded a) s =
     (if a < length (audios s) then Some (handleEnded stanzas a s) else None)"
| "fire stanzas (AudioCanPlay a accepted) s =
     (if a < length (audios s) then Some (handleCanPlay a accepted s) else None)"
| "fire stanzas (AudioError a) s =
     (if a < length (audios s) then Some (handleError a s) else None)"
| "fire stanzas (TimerFires t) s =
     (if t < length (timers s) \<and> pending (timers s ! t)
      then Some (runTimer stanzas t s) else None)"

fun run :: "string list list \<Rightarrow> event list \<Rightarrow> player \<Rightarrow> player option" where
  "run stanzas [] s = Some s"
| "run stanzas (e # es) s =
     (case fire stanzas e s of None \<Rightarrow> None | Some s' \<Rightarrow> run stanzas es s')"

section \<open>Speech utterance driver (AudioController)\<close>

text \<open>
  A JavaScript string is a sequence of UTF-16 code units, modelled as a list of numbers;
  \<open>js\<close> embeds an ASCII literal. \<open>window.speechSynthesis\<close> is modelled by its queue of
  utterances, its \<open>paused\<close> flag and the voices it enumerates.
\<close>

type_synonym jsstring = "nat list"

definition js :: "string \<Rightarrow> jsstring" where
  "js cs = map of_char cs"

fun js_startsWith :: "'a list \<Rightarrow> 'a list \<Rightarrow> bool" where
  "js_startsWith xs [] = True"
| "js_startsWith [] (p # ps) = False"
| "js_startsWith (x # xs) (p # ps) = (x = p \<and> js_startsWith xs ps)"

fun js_includes :: "'a list \<Rightarrow> 'a list \<Rightarrow> bool" where
  "js_includes [] pat = js_startsWith [] pat"
| "js_includes (x # xs) pat = (js_startsWith (x # xs) pat \<or> js_includes xs pat)"

definition js_substring :: "nat \<Rightarrow> nat \<Rightarrow> 'a list \<Rightarrow> 'a list" where
  "js_substring a b xs = take (max a b - min a b) (drop (min a b) xs)"

type_synonym AudioState = PlayState

record voice =
  voice_name :: jsstring
  voice_lang :: jsstring

record utterance =
  u_text :: jsstring
  u_voice :: "voice option"
  u_rate :: rat
  u_pitch :: rat
  u_volume :: rat
  u_lang :: jsstring

record controller =
  audioState :: AudioState
  isSupported :: bool
  utteranceRef :: "utterance option"
  soundEffects :: "string list"
  synth_queue :: "utterance list"
  synth_paused :: bool
  synth_voices :: "voice list"
  effects_played :: "string list"
  notified :: "AudioState list"
  alerts :: nat

definition trigger_chains :: jsstring where
  "trigger_chains = js ''la Calaca''"

definition trigger_chains_stop :: jsstring where
  "trigger_chains_stop = js ''la Calaca, la mera-mera''"

definition trigger_steps :: jsstring where
  "trigger_steps = js ''entr'' @ [243] @ js '' Aaron''"

definition mounted :: "bool \<Rightarrow> voice list \<Rightarrow> controller" where
  "mounted supported vs = \<lparr>audioState = Idle, isSupported = supported, utteranceRef = None,
     soundEffects = [''laugh'', ''chains'', ''steps'', ''dramatic''],
     synth_queue = [], synth_paused = False, synth_voices = vs,
     effects_played = [], notified = [], alerts = 0\<rparr>"

definition playSoundEffect :: "string \<Rightarrow> controller \<Rightarrow> controller" where
  "playSoundEffect effect s =
     (if effect \<in> set (soundEffects s) then s\<lparr>effects_played := effects_played s @ [effect]\<rparr>
      else s)"

definition setAudioState :: "AudioState \<Rightarrow> controller \<Rightarrow> controller" where
  "setAudioState st s = s\<lparr>audioState := st, notified := notified s @ [st]\<rparr>"

definition synth_cancel :: "controller \<Rightarrow> controller" where
  "synth_cancel s = s\<lparr>synth_queue := []\<rparr>"

definition synth_speak :: "utterance \<Rightarrow> controller \<Rightarrow> controller" where
  "synth_speak u s = s\<lparr>synth_queue := synth_queue s @ [u]\<rparr>"

definition new_utterance :: "jsstring \<Rightarrow> voice list \<Rightarrow> utterance" where
  "new_utterance calavera vs =
     \<lparr>u_text = calavera,
      u_voice = find (\<lambda>v. js_startsWith (voice_lang v) (js ''es'')) vs,
      u_rate = 9 / 10, u_pitch = 1, u_volume = 1, u_lang = js ''es-MX''\<rparr>"

definition handlePlay_tts :: "jsstring \<Rightarrow> controller \<Rightarrow> controller" where
  "handlePlay_tts calavera s =
     (if \<not> isSupported s then s\<lparr>alerts := alerts s + 1\<rparr>
      else let s1 = synth_cancel s;
               u = new_utterance calavera (synth_voices s1)
           in synth_speak u (s1\<lparr>utteranceRef := Some u\<rparr>))"

definition onstart :: "controller \<Rightarrow> controller" where
  "onstart s = playSoundEffect ''dramatic'' (setAudioState Playing s)"

definition onend :: "controller \<Rightarrow> controller" where
  "onend s = playSoundEffect ''laugh'' (setAudioState Ended s)"

definition onerror :: "controller \<Rightarrow> controller" where
  "onerror s = setAudioState Idle s"

definition onboundary :: "jsstring \<Rightarrow> nat \<Rightarrow> controller \<Rightarrow> controller" where
  "onboundary calavera charIndex s =
     (let text = js_substring 0 charIndex calavera;
          s1 = (if js_includes text trigger_chains \<and> \<not> js_includes text trigger_chains_stop
                then playSoundEffect ''chains'' s else s)
      in if js_includes text trigger_steps then playSoundEffect ''steps'' s1 else s1)"

definition handlePause_tts :: "controller \<Rightarrow> controller" where
  "handlePause_tts s =
     (if synth_queue s \<noteq> [] \<and> \<not> synth_paused s
      then setAudioState Paused (s\<lparr>synth_paused := True\<rparr>) else s)"

definition handleResume_tts :: "controller \<Rightarrow> controller" where
  "handleResume_tts s =
     (if synth_paused s then setAudioState Playing (s\<lparr>synth_paused := False\<rparr>) else s)"

definition handleStop_tts :: "controller \<Rightarrow> controller" where
  "handleStop_tts s = setAudioState Idle (synth_cancel s)"

text \<open>One narration pass: the engine reports the boundaries in order.\<close>

fun boundaries :: "jsstring \<Rightarrow> nat list \<Rightarrow> controller \<Rightarrow> controller" where
  "boundaries calavera [] s = s"
| "boundaries calavera (i # is) s = boundaries calavera is (onboundary calavera i s)"


section \<open>Executions\<close>







text \<open>The stanza indices for which an audio element was created, in order of creation.\<close>

definition entered :: "player \<Rightarrow> nat list" where
  "entered s = map stanza_index (audios s)"


text \<open>The timers armed by \<open>useFallback\<close> that have neither fired nor been cleared.\<close>

definition pending_fallbacks :: "player \<Rightarrow> nat list" where
  "pending_fallbacks s =
     filter (\<lambda>t. pending (timers s ! t) \<and> delay_ms (timers s ! t) = 10000)
       [0..<length (timers s)]"

definition two_stanzas :: "string list list" where
  "two_stanzas = [[''a''], [''b'']]"

definition one_stanza :: "string list list" where
  "one_stanza = [[''a'']]"

text \<open>
  The states of six concrete runs, named after the run and the number of events so far.
  \<open>started_1\<close>: two stanzas, after the play button.
  \<open>missing_2 \<dots> missing_5\<close>: the asset of stanza 1 is missing; its \<open>error\<close> event, its probe
  timer and then both fallback timers fire.
  \<open>stopped_2 \<dots> stopped_6\<close>: the stop button is pressed right after play; the timers that
  are still pending fire afterwards.
  \<open>replay_1 \<dots> replay_7\<close>: one stanza plays to its end; replay, play and show-all are
  pressed before the deferred play of replay fires.
  \<open>late_2 \<dots> late_5\<close>: the first asset of two loads only after its probe timer has
  expired; its clip is accepted, outlasts the fallback timer and ends.
  \<open>paused_4 \<dots> paused_6\<close>: after \<open>missing_3\<close> pause is pressed, the older fallback timer
  fires, resume is pressed.
  \<open>early_2 \<dots> early_5\<close>: pause is pressed right after play; the probe timer and the
  fallback timer it arms fire, resume is pressed.
\<close>

definition started_1 :: player where
  "started_1 =
   \<lparr>playState = Playing, currentStanzaIndex = 0, showAll = False,
     currentAudioRef = Some 0, fallbackTimerRef = None,
     audios =
       [\<lparr>stanza_index = 0, asset_number = 1, el_paused = True,
          audioLoaded = False, fallbackTimer = None\<rparr>],
     timers =
       [\<lparr>delay_ms = 500, callback = Probe 0, pending = True\<rparr>],
     console = []\<rparr>"

definition missing_2 :: player where
  "missing_2 =
   \<lparr>playState = Playing, currentStanzaIndex = 0, showAll = False,
     currentAudioRef = Some 0, fallbackTimerRef = Some 1,
     audios =
       [\<lparr>stanza_index = 0, asset_number = 1, el_paused = True,
          audioLoaded = False, fallbackTimer = Some 1\<rparr>],
     timers =
       [\<lparr>delay_ms = 500, callback = Probe 0, pending = True\<rparr>,
        \<lparr>delay_ms = 10000, callback = Advance 0, pending = True\<rparr>],
     console = [LoadWarning 1]\<rparr>"

definition missing_3 :: player where
  "missing_3 =
   \<lparr>playState = Playing, currentStanzaIndex = 0, showAll = False,
     currentAudioRef = Some 0, fallbackTimerRef = Some 2,
     audios =
       [\<lparr>stanza_index = 0, asset_number = 1, el_paused = True,
          audioLoaded = False, fallbackTimer = Some 2\<rparr>],
     timers =
       [\<lparr>delay_ms = 500, callback = Probe 0, pending = False\<rparr>,
        \<lparr>delay_ms = 10000, callback = Advance 0, pending = True\<rparr>,
        \<lparr>delay_ms = 10000, callback = Advance 0, pending = True\<rparr>],
     console = [LoadWarning 1, LoadWarning 1]\<rparr>"

definition missing_4 :: player where
  "missing_4 =
   \<lparr>playState = Playing, currentStanzaIndex = 1, showAll = False,
     currentAudioRef = Some 1, fallbackTimerRef = Some 2,
     audios =
       [\<lparr>stanza_index = 0, asset_number = 1, el_paused = True,
          audioLoaded = False, fallbackTimer = Some 2\<rparr>,
        \<lparr>stanza_index = 1, asset_number = 2, el_paused = True,
          audioLoaded = False, fallbackTimer = None\<rparr>],
     timers =
       [\<lparr>delay_ms = 500, callback = Probe 0, pending = False\<rparr>,
        \<lparr>delay_ms = 10000, callback = Advance 0, pending = False\<rparr>,
        \<lparr>delay_ms = 10000, callback = Advance 0, pending = True\<rparr>,
        \<lparr>delay_ms = 500, callback = Probe 1, pending = True\<rparr>],
     console = [LoadWarning 1, LoadWarning 1]\<rparr>"

definition missing_5 :: player where
  "missing_5 =
   \<lparr>playState = Playing, currentStanzaIndex = 1, showAll = False,
     currentAudioRef = Some 2, fallbackTimerRef = Some 2,
     audios =
       [\<lparr>stanza_index = 0, asset_number = 1, el_paused = True,
          audioLoaded = False, fallbackTimer = Some 2\<rparr>,
        \<lparr>stanza_index = 1, asset_number = 2, el_paused = True,
          audioLoaded = False, fallbackTimer = None\<rparr>,
        \<lparr>stanza_index = 1, asset_number = 2, el_paused = True,
          audioLoaded = False, fallbackTimer = None\<rparr>],
     timers =
       [\<lparr>delay_ms = 500, callback = Probe 0, pending = False\<rparr>,
        \<lparr>delay_ms = 10000, callback = Advance 0, pending = False\<rparr>,
        \<lparr>delay_ms = 10000, callback = Advance 0, pending = False\<rparr>,
        \<lparr>delay_ms = 500, callback = Probe 1, pending = True\<rparr>,
        \<lparr>delay_ms = 500, callback = Probe 2, pending = True\<rparr>],
     console = [LoadWarning 1, LoadWarning 1]\<rparr>"

definition stopped_2 :: player where
  "stopped_2 =
   \<lparr>playState = Idle, currentStanzaIndex = 0, showAll = False,
     currentAudioRef = None, fallbackTimerRef = None,
     audios =
       [\<lparr>stanza_index = 0, asset_number = 1, el_paused = True,
          audioLoaded = False, fallbackTimer = None\<rparr>],
     timers =
       [\<lparr>delay_ms = 500, callback = Probe 0, pending = True\<rparr>],
     console = []\<rparr>"

definition stopped_3 :: player where
  "stopped_3 =
   \<lparr>playState = Idle, currentStanzaIndex = 0, showAll = False,
     currentAudioRef = None, fallbackTimerRef = Some 1,
     audios =
       [\<lparr>stanza_index = 0, asset_number = 1, el_paused = True,
          audioLoaded = False, fallbackTimer = Some 1\<rparr>],
     timers =
       [\<lparr>delay_ms = 500, callback = Probe 0, pending = False\<rparr>,
        \<lparr>delay_ms = 10000, callback = Advance 0, pending = True\<rparr>],
     console = [LoadWarning 1]\<rparr>"

definition stopped_4 :: player where
  "stopped_4 =
   \<lparr>playState = Idle, currentStanzaIndex = 1, showAll = False,
     currentAudioRef = Some 1, fallbackTimerRef = Some 1,
     audios =
       [\<lparr>stanza_index = 0, asset_number = 1, el_paused = True,
          audioLoaded = False, fallbackTimer = Some 1\<rparr>,
        \<lparr>stanza_index = 1, asset_number = 2, el_paused = True,
          audioLoaded = False, fallbackTimer = None\<rparr>],
     timers =
       [\<lparr>delay_ms = 500, callback = Probe 0, pending = False\<rparr>,
        \<lparr>delay_ms = 10000, callback = Advance 0, pending = False\<rparr>,
        \<lparr>delay_ms = 500, callback = Probe 1, pending = True\<rparr>],
     console = [LoadWarning 1]\<rparr>"

definition stopped_5 :: player where
  "stopped_5 =
   \<lparr>playState = Idle, currentStanzaIndex = 1, showAll = False,
     currentAudioRef = Some 1, fallbackTimerRef = Some 3,
     audios =
       [\<lparr>stanza_index = 0, asset_number = 1, el_paused = True,
          audioLoaded = False, fallbackTimer = Some 1\<rparr>,
        \<lparr>stanza_index = 1, asset_number = 2, el_paused = True,
          audioLoaded = False, fallbackTimer = Some 3\<rparr>],
     timers =
       [\<lparr>delay_ms = 500, callback = Probe 0, pending = False\<rparr>,
        \<lparr>delay_ms = 10000, callback = Advance 0, pending = False\<rparr>,
        \<lparr>delay_ms = 500, callback = Probe 1, pending = False\<rparr>,
        \<lparr>delay_ms = 10000, callback = Advance 1, pending = True\<rparr>],
     console = [LoadWarning 1, LoadWarning 2]\<rparr>"

definition stopped_6 :: player where
  "stopped_6 =
   \<lparr>playState = Ended, currentStanzaIndex = 1, showAll = False,
     currentAudioRef = Some 1, fallbackTimerRef = Some 3,
     audios =
       [\<lparr>stanza_index = 0, asset_number = 1, el_paused = True,
          audioLoaded = False, fallbackTimer = Some 1\<rparr>,
        \<lparr>stanza_index = 1, asset_number = 2, el_paused = True,
          audioLoaded = False, fallbackTimer = Some 3\<rparr>],
     timers =
       [\<lparr>delay_ms = 500, callback = Probe 0, pending = False\<rparr>,
        \<lparr>delay_ms = 10000, callback = Advance 0, pending = False\<rparr>,
        \<lparr>delay_ms = 500, callback = Probe 1, pending = False\<rparr>,
        \<lparr>delay_ms = 10000, callback = Advance 1, pending = False\<rparr>],
     console = [LoadWarning 1, LoadWarning 2]\<rparr>"

definition replay_1 :: player where
  "replay_1 =
   \<lparr>playState = Playing, currentStanzaIndex = 0, showAll = False,
     currentAudioRef = Some 0, fallbackTimerRef = None,
     audios =
       [\<lparr>stanza_index = 0, asset_number = 1, el_paused = True,
          audioLoaded = False, fallbackTimer = None\<rparr>],
     timers =
       [\<lparr>delay_ms = 500, callback = Probe 0, pending = True\<rparr>],
     console = []\<rparr>"

definition replay_2 :: player where
  "replay_2 =
   \<lparr>playState = Playing, currentStanzaIndex = 0, showAll = False,
     currentAudioRef = Some 0, fallbackTimerRef = None,
     audios =
       [\<lparr>stanza_index = 0, asset_number = 1, el_paused = False,
          audioLoaded = True, fallbackTimer = None\<rparr>],
     timers =
       [\<lparr>delay_ms = 500, callback = Probe 0, pending = True\<rparr>],
     console = []\<rparr>"

definition replay_3 :: player where
  "replay_3 =
   \<lparr>playState = Ended, currentStanzaIndex = 0, showAll = False,
     currentAudioRef = Some 0, fallbackTimerRef = None,
     audios =
       [\<lparr>stanza_index = 0, asset_number = 1, el_paused = False,
          audioLoaded = True, fallbackTimer = None\<rparr>],
     timers =
       [\<lparr>delay_ms = 500, callback = Probe 0, pending = True\<rparr>],
     console = []\<rparr>"

definition replay_4 :: player where
  "replay_4 =
   \<lparr>playState = Idle, currentStanzaIndex = 0, showAll = False,
     currentAudioRef = None, fallbackTimerRef = None,
     audios =
       [\<lparr>stanza_index = 0, asset_number = 1, el_paused = True,
          audioLoaded = True, fallbackTimer = None\<rparr>],
     timers =
       [\<lparr>delay_ms = 500, callback = Probe 0, pending = True\<rparr>,
        \<lparr>delay_ms = 100, callback = DeferredPlay, pending = True\<rparr>],
     console = []\<rparr>"

definition replay_5 :: player where
  "replay_5 =
   \<lparr>playState = Playing, currentStanzaIndex = 0, showAll = False,
     currentAudioRef = Some 1, fallbackTimerRef = None,
     audios =
       [\<lparr>stanza_index = 0, asset_number = 1, el_paused = True,
          audioLoaded = True, fallbackTimer = None\<rparr>,
        \<lparr>stanza_index = 0, asset_number = 1, el_paused = True,
          audioLoaded = False, fallbackTimer = None\<rparr>],
     timers =
       [\<lparr>delay_ms = 500, callback = Probe 0, pending = True\<rparr>,
        \<lparr>delay_ms = 100, callback = DeferredPlay, pending = True\<rparr>,
        \<lparr>delay_ms = 500, callback = Probe 1, pending = True\<rparr>],
     console = []\<rparr>"

definition replay_6 :: player where
  "replay_6 =
   \<lparr>playState = Playing, currentStanzaIndex = 0, showAll = True,
     currentAudioRef = Some 1, fallbackTimerRef = None,
     audios =
       [\<lparr>stanza_index = 0, asset_number = 1, el_paused = True,
          audioLoaded = True, fallbackTimer = None\<rparr>,
        \<lparr>stanza_index = 0, asset_number = 1, el_paused = True,
          audioLoaded = False, fallbackTimer = None\<rparr>],
     timers =
       [\<lparr>delay_ms = 500, callback = Probe 0, pending = True\<rparr>,
        \<lparr>delay_ms = 100, callback = DeferredPlay, pending = True\<rparr>,
        \<lparr>delay_ms = 500, callback = Probe 1, pending = True\<rparr>],
     console = []\<rparr>"

definition replay_7 :: player where
  "replay_7 =
   \<lparr>playState = Playing, currentStanzaIndex = 0, showAll = False,
     currentAudioRef = Some 2, fallbackTimerRef = None,
     audios =
       [\<lparr>stanza_index = 0, asset_number = 1, el_paused = True,
          audioLoaded = True, fallbackTimer = None\<rparr>,
        \<lparr>stanza_index = 0, asset_number = 1, el_paused = True,
          audioLoaded = False, fallbackTimer = None\<rparr>,
        \<lparr>stanza_index = 0, asset_number = 1, el_paused = True,
          audioLoaded = False, fallbackTimer = None\<rparr>],
     timers =
       [\<lparr>delay_ms = 500, callback = Probe 0, pending = True\<rparr>,
        \<lparr>delay_ms = 100, callback = DeferredPlay, pending = False\<rparr>,
        \<lparr>delay_ms = 500, callback = Probe 1, pending = True\<rparr>,
        \<lparr>delay_ms = 500, callback = Probe 2, pending = True\<rparr>],
     console = []\<rparr>"





definition paused_4 :: player where
  "paused_4 =
   \<lparr>playState = Paused, currentStanzaIndex = 0, showAll = False,
     currentAudioRef = Some 0, fallbackTimerRef = Some 2,
     audios =
       [\<lparr>stanza_index = 0, asset_number = 1, el_paused = True,
          audioLoaded = False, fallbackTimer = Some 2\<rparr>],
     timers =
       [\<lparr>delay_ms = 500, callback = Probe 0, pending = False\<rparr>,
        \<lparr>delay_ms = 10000, callback = Advance 0, pending = True\<rparr>,
        \<lparr>delay_ms = 10000, callback = Advance 0, pending = False\<rparr>],
     console = [LoadWarning 1, LoadWarning 1]\<rparr>"

definition paused_5 :: player where
  "paused_5 =
   \<lparr>playState = Paused, currentStanzaIndex = 1, showAll = False,
     currentAudioRef = Some 1, fallbackTimerRef = Some 2,
     audios =
       [\<lparr>stanza_index = 0, asset_number = 1, el_paused = True,
          audioLoaded = False, fallbackTimer = Some 2\<rparr>,
        \<lparr>stanza_index = 1, asset_number = 2, el_paused = True,
          audioLoaded = False, fallbackTimer = None\<rparr>],
     timers =
       [\<lparr>delay_ms = 500, callback = Probe 0, pending = False\<rparr>,
        \<lparr>delay_ms = 10000, callback = Advance 0, pending = False\<rparr>,
        \<lparr>delay_ms = 10000, callback = Advance 0, pending = False\<rparr>,
        \<lparr>delay_ms = 500, callback = Probe 1, pending = True\<rparr>],
     console = [LoadWarning 1, LoadWarning 1]\<rparr>"

definition paused_6 :: player where
  "paused_6 =
   \<lparr>playState = Playing, currentStanzaIndex = 1, showAll = False,
     currentAudioRef = Some 1, fallbackTimerRef = Some 2,
     audios =
       [\<lparr>stanza_index = 0, asset_number = 1, el_paused = True,
          audioLoaded = False, fallbackTimer = Some 2\<rparr>,
        \<lparr>stanza_index = 1, asset_number = 2, el_paused = False,
          audioLoaded = False, fallbackTimer = None\<rparr>],
     timers =
       [\<lparr>delay_ms = 500, callback = Probe 0, pending = False\<rparr>,
        \<lparr>delay_ms = 10000, callback = Advance 0, pending = False\<rparr>,
        \<lparr>delay_ms = 10000, callback = Advance 0, pending = False\<rparr>,
        \<lparr>delay_ms = 500, callback = Probe 1, pending = True\<rparr>],
     console = [LoadWarning 1, LoadWarning 1]\<rparr>"

definition early_2 :: player where
  "early_2 =
   \<lparr>playState = Paused, currentStanzaIndex = 0, showAll = False,
     currentAudioRef = Some 0, fallbackTimerRef = None,
     audios =
       [\<lparr>stanza_index = 0, asset_number = 1, el_paused = True,
          audioLoaded = False, fallbackTimer = None\<rparr>],
     timers =
       [\<lparr>delay_ms = 500, callback = Probe 0, pending = True\<rparr>],
     console = []\<rparr>"

definition early_3 :: player where
  "early_3 =
   \<lparr>playState = Paused, currentStanzaIndex = 0, showAll = False,
     currentAudioRef = Some 0, fallbackTimerRef = Some 1,
     audios =
       [\<lparr>stanza_index = 0, asset_number = 1, el_paused = True,
          audioLoaded = False, fallbackTimer = Some 1\<rparr>],
     timers =
       [\<lparr>delay_ms = 500, callback = Probe 0, pending = False\<rparr>,
        \<lparr>delay_ms = 10000, callback = Advance 0, pending = True\<rparr>],
     console = [LoadWarning 1]\<rparr>"

definition early_4 :: player where
  "early_4 =
   \<lparr>playState = Paused, currentStanzaIndex = 1, showAll = False,
     currentAudioRef = Some 1, fallbackTimerRef = Some 1,
     audios =
       [\<lparr>stanza_index = 0, asset_number = 1, el_paused = True,
          audioLoaded = False, fallbackTimer = Some 1\<rparr>,
        \<lparr>stanza_index = 1, asset_number = 2, el_paused = True,
          audioLoaded = False, fallbackTimer = None\<rparr>],
     timers =
       [\<lparr>delay_ms = 500, callback = Probe 0, pending = False\<rparr>,
        \<lparr>delay_ms = 10000, callback = Advance 0, pending = False\<rparr>,
        \<lparr>delay_ms = 500, callback = Probe 1, pending = True\<rparr>],
     console = [LoadWarning 1]\<rparr>"

definition early_5 :: player where
  "early_5 =
   \<lparr>playState = Playing, currentStanzaIndex = 1, showAll = False,
     currentAudioRef = Some 1, fallbackTimerRef = Some 1,
     audios =
       [\<lparr>stanza_index = 0, asset_number = 1, el_paused = True,
          audioLoaded = False, fallbackTimer = Some 1\<rparr>,
        \<lparr>stanza_index = 1, asset_number = 2, el_paused = False,
          audioLoaded = False, fallbackTimer = None\<rparr>],
     timers =
       [\<lparr>delay_ms = 500, callback = Probe 0, pending = False\<rparr>,
        \<lparr>delay_ms = 10000, callback = Advance 0, pending = False\<rparr>,
        \<lparr>delay_ms = 500, callback = Probe 1, pending = True\<rparr>],
     console = [LoadWarning 1]\<rparr>"

text \<open>
  The condition under which \<open>onboundary\<close> plays the chains effect at a boundary, as in its
  \<open>if\<close>.
\<close>

definition chains_due :: "jsstring \<Rightarrow> nat \<Rightarrow> bool" where
  "chains_due calavera charIndex =
     (js_includes (js_substring 0 charIndex calavera) trigger_chains \<and>
      \<not> js_includes (js_substring 0 charIndex calavera) trigger_chains_stop)"

text \<open>
  A sample text with the word boundaries a speech engine reports for it (the start of each
  word), and a voice list with one Spanish voice.
\<close>

definition sample_poem :: jsstring where
  "sample_poem = js ''vino la Calaca, la mera-mera, y se fue''"

definition sample_boundaries :: "nat list" where
  "sample_boundaries = [0, 5, 8, 16, 19, 30, 32, 35]"

definition spanish_voices :: "voice list" where
  "spanish_voices =
     [\<lparr>voice_name = js ''Alex'', voice_lang = js ''en-US''\<rparr>,
      \<lparr>voice_name = js ''Paulina'', voice_lang = js ''es-MX''\<rparr>]"

section \<open>Properties\<close>

lemmas prim_defs = setTimeout_def clearTimeout_def audio_pause_def audio_play_def new_Audio_def

lemmas handler_defs = playStanza_def useFallback_def handleEnded_def handleError_def
  handleCanPlay_def probe_def handlePlay_def handlePause_def handleResume_def handleStop_def
  handleShowAll_def handleBack_def handleReplay_def runTimer_def


subsection \<open>Single steps of the concrete runs\<close>

lemma fire_started_1: "fire two_stanzas ClickPlay init = Some started_1"
  by (simp add: two_stanzas_def init_def started_1_def handler_defs prim_defs Let_def)

lemma fire_missing_2: "fire two_stanzas (AudioError 0) started_1 = Some missing_2"
  by (simp add: two_stanzas_def started_1_def missing_2_def handler_defs prim_defs Let_def)

lemma fire_missing_3: "fire two_stanzas (TimerFires 0) missing_2 = Some missing_3"
  by (simp add: two_stanzas_def missing_2_def missing_3_def handler_defs prim_defs Let_def)

lemma fire_missing_4: "fire two_stanzas (TimerFires 1) missing_3 = Some missing_4"
  by (simp add: two_stanzas_def missing_3_def missing_4_def handler_defs prim_defs Let_def)

lemma fire_missing_5: "fire two_stanzas (TimerFires 2) missing_4 = Some missing_5"
  by (simp add: two_stanzas_def missing_4_def missing_5_def handler_defs prim_defs Let_def)

lemma fire_stopped_2: "fire two_stanzas ClickStop started_1 = Some stopped_2"
  by (simp add: two_stanzas_def started_1_def stopped_2_def handler_defs prim_defs Let_def)

lemma fire_stopped_3: "fire two_stanzas (TimerFires 0) stopped_2 = Some stopped_3"
  by (simp add: two_stanzas_def stopped_2_def stopped_3_def handler_defs prim_defs Let_def)

lemma fire_stopped_4: "fire two_stanzas (TimerFires 1) stopped_3 = Some stopped_4"
  by (simp add: two_stanzas_def stopped_3_def stopped_4_def handler_defs prim_defs Let_def)

lemma fire_stopped_5: "fire two_stanzas (TimerFires 2) stopped_4 = Some stopped_5"
  by (simp add: two_stanzas_def stopped_4_def stopped_5_def handler_defs prim_defs Let_def)

lemma fire_stopped_6: "fire two_stanzas (TimerFires 3) stopped_5 = Some stopped_6"
  by (simp add: two_stanzas_def stopped_5_def stopped_6_def handler_defs prim_defs Let_def)

lemma fire_replay_1: "fire one_stanza ClickPlay init = Some replay_1"
  by (simp add: one_stanza_def init_def replay_1_def handler_defs prim_defs Let_def)

lemma fire_replay_2: "fire one_stanza (AudioCanPlay 0 True) replay_1 = Some replay_2"
  by (simp add: one_stanza_def replay_1_def replay_2_def handler_defs prim_defs Let_def)

lemma fire_replay_3: "fire one_stanza (AudioEnded 0) replay_2 = Some replay_3"
  by (simp add: one_stanza_def replay_2_def replay_3_def handler_defs prim_defs Let_def)

lemma fire_replay_4: "fire one_stanza ClickReplay replay_3 = Some replay_4"
  by (simp add: one_stanza_def replay_3_def replay_4_def handler_defs prim_defs Let_def)

lemma fire_replay_5: "fire one_stanza ClickPlay replay_4 = Some replay_5"
  by (simp add: one_stanza_def replay_4_def replay_5_def handler_defs prim_defs Let_def)

lemma fire_replay_6: "fire one_stanza ClickShowAll replay_5 = Some replay_6"
  by (simp add: one_stanza_def replay_5_def replay_6_def handler_defs prim_defs Let_def)

lemma fire_replay_7: "fire one_stanza (TimerFires 1) replay_6 = Some replay_7"
  by (simp add: one_stanza_def replay_6_def replay_7_def handler_defs prim_defs Let_def)





lemma fire_paused_4: "fire two_stanzas ClickPause missing_3 = Some paused_4"
  by (simp add: two_stanzas_def missing_3_def paused_4_def handler_defs prim_defs Let_def)

lemma fire_paused_5: "fire two_stanzas (TimerFires 1) paused_4 = Some paused_5"
  by (simp add: two_stanzas_def paused_4_def paused_5_def handler_defs prim_defs Let_def)

lemma fire_paused_6: "fire two_stanzas (ClickResume True) paused_5 = Some paused_6"
  by (simp add: two_stanzas_def paused_5_def paused_6_def handler_defs prim_defs Let_def)

lemma fire_early_2: "fire two_stanzas ClickPause started_1 = Some early_2"
  by (simp add: two_stanzas_def started_1_def early_2_def handler_defs prim_defs Let_def)

lemma fire_early_3: "fire two_stanzas (TimerFires 0) early_2 = Some early_3"
  by (simp add: two_stanzas_def early_2_def early_3_def handler_defs prim_defs Let_def)

lemma fire_early_4: "fire two_stanzas (TimerFires 1) early_3 = Some early_4"
  by (simp add: two_stanzas_def early_3_def early_4_def handler_defs prim_defs Let_def)

lemma fire_early_5: "fire two_stanzas (ClickResume True) early_4 = Some early_5"
  by (simp add: two_stanzas_def early_4_def early_5_def handler_defs prim_defs Let_def)

subsection \<open>The concrete runs\<close>


lemma run_paused_4:
  "run two_stanzas [ClickPlay, AudioError 0, TimerFires 0, ClickPause] init = Some paused_4"
  by (simp only: run.simps fire_started_1 fire_missing_2 fire_missing_3 fire_paused_4
      option.case)

lemma run_paused_6:
  "run two_stanzas
     [ClickPlay, AudioError 0, TimerFires 0, ClickPause, TimerFires 1, ClickResume True] init
     = Some paused_6"
  by (simp only: run.simps fire_started_1 fire_missing_2 fire_missing_3 fire_paused_4
      fire_paused_5 fire_paused_6 option.case)

lemma run_early_2: "run two_stanzas [ClickPlay, ClickPause] init = Some early_2"
  by (simp only: run.simps fire_started_1 fire_early_2 option.case)

lemma run_early_5:
  "run two_stanzas [ClickPlay, ClickPause, TimerFires 0, TimerFires 1, ClickResume True] init
     = Some early_5"
  by (simp only: run.simps fire_started_1 fire_early_2 fire_early_3 fire_early_4 fire_early_5
      option.case)

lemma run_stopped_2: "run two_stanzas [ClickPlay, ClickStop] init = Some stopped_2"
  by (simp only: run.simps fire_started_1 fire_stopped_2 option.case)

lemma run_stopped_4:
  "run two_stanzas [ClickPlay, ClickStop, TimerFires 0, TimerFires 1] init = Some stopped_4"
  by (simp only: run.simps fire_started_1 fire_stopped_2 fire_stopped_3 fire_stopped_4 option.case)

lemma run_stopped_6:
  "run two_stanzas [ClickPlay, ClickStop, TimerFires 0, TimerFires 1, TimerFires 2, TimerFires 3]
     init = Some stopped_6"
  by (simp only: run.simps fire_started_1 fire_stopped_2 fire_stopped_3 fire_stopped_4
      fire_stopped_5 fire_stopped_6 option.case)

lemma run_missing_3:
  "run two_stanzas [ClickPlay, AudioError 0, TimerFires 0] init = Some missing_3"
  by (simp only: run.simps fire_started_1 fire_missing_2 fire_missing_3 option.case)

lemma run_missing_4:
  "run two_stanzas [ClickPlay, AudioError 0, TimerFires 0, TimerFires 1] init = Some missing_4"
  by (simp only: run.simps fire_started_1 fire_missing_2 fire_missing_3 fire_missing_4 option.case)

lemma run_missing_5:
  "run two_stanzas [ClickPlay, AudioError 0, TimerFires 0, TimerFires 1, TimerFires 2] init
     = Some missing_5"
  by (simp only: run.simps fire_started_1 fire_missing_2 fire_missing_3 fire_missing_4
      fire_missing_5 option.case)

lemma run_replay_6:
  "run one_stanza
     [ClickPlay, AudioCanPlay 0 True, AudioEnded 0, ClickReplay, ClickPlay, ClickShowAll] init
     = Some replay_6"
  by (simp only: run.simps fire_replay_1 fire_replay_2 fire_replay_3 fire_replay_4
      fire_replay_5 fire_replay_6 option.case)

lemma run_replay_7:
  "run one_stanza
     [ClickPlay, AudioCanPlay 0 True, AudioEnded 0, ClickReplay, ClickPlay, ClickShowAll,
      TimerFires 1] init
     = Some replay_7"
  by (simp only: run.simps fire_replay_1 fire_replay_2 fire_replay_3 fire_replay_4
      fire_replay_5 fire_replay_6 fire_replay_7 option.case)

subsection \<open>The stanza index stays in range\<close>

lemma playStanza_index:
  "currentStanzaIndex s \<le> length stanzas - 1 \<Longrightarrow>
   currentStanzaIndex (playStanza stanzas i s) \<le> length stanzas - 1"
  by (auto simp: playStanza_def setTimeout_def)

lemma fire_index:
  assumes "fire stanzas e s = Some s'" and "currentStanzaIndex s \<le> length stanzas - 1"
  shows "currentStanzaIndex s' \<le> length stanzas - 1"
  using assms
  by (cases e)
    (auto simp: handler_defs prim_defs Let_def split: if_splits option.splits callback.splits)

lemma run_index:
  "run stanzas evs s = Some s' \<Longrightarrow> currentStanzaIndex s \<le> length stanzas - 1 \<Longrightarrow>
   currentStanzaIndex s' \<le> length stanzas - 1"
proof (induction evs arbitrary: s)
  case Nil
  then show ?case by simp
next
  case (Cons e es)
  then show ?case by (auto split: option.splits dest: fire_index)
qed

text \<open>
  Claim C10. In every state reachable from the initial one by any sequence of events over a
  list of \<open>N\<close> stanzas, the current stanza index is at most \<open>N - 1\<close> (at most 0 when
  \<open>N = 0\<close>): \<open>playStanza i\<close> sets the index to \<open>i\<close> only when \<open>i < N\<close>, and for
  \<open>i \<ge> N\<close> it only sets the state to \<open>Ended\<close>; for \<open>N = 0\<close> the play button leads
  to \<open>Ended\<close> with index 0.
\<close>

theorem index_in_range:
  "(\<forall>evs s. run stanzas evs init = Some s \<longrightarrow> currentStanzaIndex s \<le> length stanzas - 1) \<and>
   (\<forall>i s. i < length stanzas \<longrightarrow> currentStanzaIndex (playStanza stanzas i s) = i) \<and>
   (\<forall>i s. length stanzas \<le> i \<longrightarrow> playStanza stanzas i s = s\<lparr>playState := Ended\<rparr>) \<and>
   (stanzas = [] \<longrightarrow> fire stanzas ClickPlay init = Some (init\<lparr>playState := Ended\<rparr>))"
proof (intro conjI allI impI)
  fix evs s assume "run stanzas evs init = Some s"
  then show "currentStanzaIndex s \<le> length stanzas - 1"
    by (rule run_index) (simp add: init_def)
next
  fix i s assume "i < length stanzas"
  then show "currentStanzaIndex (playStanza stanzas i s) = i"
    by (simp add: playStanza_def setTimeout_def)
next
  fix i s assume "length stanzas \<le> i"
  then show "playStanza stanzas i s = s\<lparr>playState := Ended\<rparr>"
    by (simp add: playStanza_def)
next
  assume "stanzas = []"
  then show "fire stanzas ClickPlay init = Some (init\<lparr>playState := Ended\<rparr>)"
    by (simp add: handlePlay_def playStanza_def init_def)
qed

theorem index_in_range_witness:
  "run two_stanzas [ClickPlay, AudioError 0, TimerFires 0, TimerFires 1] init = Some missing_4
   \<and> currentStanzaIndex missing_4 = 1 \<and> currentStanzaIndex missing_4 \<le> length two_stanzas - 1
   \<and> 1 < length two_stanzas \<and> currentStanzaIndex (playStanza two_stanzas 1 init) = 1
   \<and> length two_stanzas \<le> 2 \<and> playStanza two_stanzas 2 init = init\<lparr>playState := Ended\<rparr>
   \<and> fire [] ClickPlay init = Some (init\<lparr>playState := Ended\<rparr>)"
proof -
  have r: "run two_stanzas [ClickPlay, AudioError 0, TimerFires 0, TimerFires 1] init = Some missing_4"
    by (rule run_missing_4)
  have len: "length two_stanzas = 2" by (simp add: two_stanzas_def)
  from index_in_range [of two_stanzas] r
  have b: "currentStanzaIndex missing_4 \<le> length two_stanzas - 1" by blast
  from index_in_range [of two_stanzas] len
  have p1: "currentStanzaIndex (playStanza two_stanzas 1 init) = 1"
    and p2: "playStanza two_stanzas 2 init = init\<lparr>playState := Ended\<rparr>" by simp_all
  from index_in_range [of "[]"]
  have e: "fire [] ClickPlay init = Some (init\<lparr>playState := Ended\<rparr>)" by blast
  have i: "currentStanzaIndex missing_4 = 1" by (simp add: missing_4_def)
  show ?thesis using r i b p1 p2 e len by simp
qed

subsection \<open>Natural playback\<close>

lemma map_update_keep:
  "f y = f (xs ! i) \<Longrightarrow> map f (xs[i := y]) = map f xs"
  by (cases "i < length xs") (simp_all add: map_update list_update_same_conv list_update_beyond)


lemma playStanza_inside:
  assumes "i < length stanzas"
  shows "entered (playStanza stanzas i s) = entered s @ [i]"
    and "playState (playStanza stanzas i s) = playState s"
    and "currentStanzaIndex (playStanza stanzas i s) = i"
    and "currentAudioRef (playStanza stanzas i s) = Some (length (audios s))"
    and "timers (playStanza stanzas i s) =
           timers s @ [\<lparr>delay_ms = 500, callback = Probe (length (audios s)), pending = True\<rparr>]"
  using assms by (simp_all add: playStanza_def setTimeout_def entered_def new_Audio_def)

lemma playStanza_beyond:
  assumes "length stanzas \<le> i"
  shows "playStanza stanzas i s = s\<lparr>playState := Ended\<rparr>"
  using assms by (simp add: playStanza_def)

















subsection \<open>Stale callbacks and repeated fallback timers\<close>

text \<open>
  Claim C1, evaluated on two stanzas. Pressing stop right after play gives state \<open>Idle\<close>,
  index 0 and no audio handle. The 500 ms probe timer of the stopped stanza is still pending:
  when it fires it arms a fallback timer, and when that fires \<open>playStanza 1\<close> runs, so the
  index becomes 1 and a new audio handle is held while the state is \<open>Idle\<close>; the same
  chain for stanza 2 then sets the state to \<open>Ended\<close>.
\<close>

theorem stop_then_stale_probe:
  "map_option (\<lambda>s. (playState s, currentStanzaIndex s, currentAudioRef s))
     (run two_stanzas [ClickPlay, ClickStop] init) = Some (Idle, 0, None) \<and>
   map_option (\<lambda>s. (playState s, currentStanzaIndex s, currentAudioRef s))
     (run two_stanzas [ClickPlay, ClickStop, TimerFires 0, TimerFires 1] init)
     = Some (Idle, 1, Some 1) \<and>
   map_option (\<lambda>s. (playState s, currentStanzaIndex s, currentAudioRef s))
     (run two_stanzas [ClickPlay, ClickStop, TimerFires 0, TimerFires 1, TimerFires 2, TimerFires 3]
        init)
     = Some (Ended, 1, Some 1)"
  unfolding run_stopped_2 run_stopped_4 run_stopped_6
  by (simp add: stopped_2_def stopped_4_def stopped_6_def)

text \<open>
  Claim C2, evaluated on two stanzas whose first asset is missing. The \<open>error\<close> event and
  the probe timer each arm a fallback timer for stanza 1; both fire, and the advance from
  index 0 to index 1 happens twice: two audio elements are created for index 1.
\<close>

theorem missing_asset_advances_twice:
  "map_option (\<lambda>s. (entered s, currentStanzaIndex s))
     (run two_stanzas [ClickPlay, AudioError 0, TimerFires 0, TimerFires 1, TimerFires 2] init)
     = Some ([0, 1, 1], 1)"
  unfolding run_missing_5 by (simp add: missing_5_def entered_def)

text \<open>
  Claim C3, evaluated on the same run. After the \<open>error\<close> event and the probe timer, two
  fallback timers (timers 1 and 2) are pending at once; when the first fires, stanza 2 is
  started while the second is still pending.
\<close>

theorem two_fallback_timers_pending:
  "map_option pending_fallbacks
     (run two_stanzas [ClickPlay, AudioError 0, TimerFires 0] init) = Some [1, 2] \<and>
   map_option (\<lambda>s. (pending_fallbacks s, currentAudioRef s, entered s))
     (run two_stanzas [ClickPlay, AudioError 0, TimerFires 0, TimerFires 1] init)
     = Some ([2], Some 1, [0, 1])"
  unfolding run_missing_3 run_missing_4
  by (simp add: missing_3_def missing_4_def pending_fallbacks_def entered_def upt_conv_Cons)

subsection \<open>The show-all flag\<close>

text \<open>
  The run \<open>replay_1 \<dots> replay_7\<close>: with the deferred play of replay still pending, the
  sequencer is playing with the show-all flag set; when the deferred \<open>handlePlay\<close> fires,
  the flag is cleared.
\<close>

theorem showAll_reset_by_play:
  "map_option (\<lambda>s. (playState s, showAll s))
     (run one_stanza
        [ClickPlay, AudioCanPlay 0 True, AudioEnded 0, ClickReplay, ClickPlay, ClickShowAll] init)
     = Some (Playing, True) \<and>
   map_option (\<lambda>s. (playState s, showAll s))
     (run one_stanza
        [ClickPlay, AudioCanPlay 0 True, AudioEnded 0, ClickReplay, ClickPlay, ClickShowAll,
         TimerFires 1] init)
     = Some (Playing, False) \<and>
   callback (timers replay_6 ! 1) = DeferredPlay \<and>
   showAll (handlePlay one_stanza replay_6) \<noteq> showAll replay_6"
  unfolding run_replay_6 run_replay_7
  by (simp add: replay_6_def replay_7_def handlePlay_def playStanza_def setTimeout_def one_stanza_def)

text \<open>
  Claim C9, amended. The show-all button and the back button change only the flag: play
  state, stanza index, refs, audio elements and timers stay as they are. Pause, resume,
  stop, replay, \<open>playStanza\<close> and the audio and timer callbacks leave the flag as it is,
  except that \<open>handlePlay\<close> (the play button, and the deferred play that replay
  schedules) always clears it.
\<close>

theorem showAll_frame:
  "playState (handleShowAll s) = playState s \<and>
   currentStanzaIndex (handleShowAll s) = currentStanzaIndex s \<and>
   currentAudioRef (handleShowAll s) = currentAudioRef s \<and>
   fallbackTimerRef (handleShowAll s) = fallbackTimerRef s \<and>
   audios (handleShowAll s) = audios s \<and> timers (handleShowAll s) = timers s \<and>
   showAll (handleShowAll s) \<and>
   playState (handleBack s) = playState s \<and>
   currentStanzaIndex (handleBack s) = currentStanzaIndex s \<and>
   currentAudioRef (handleBack s) = currentAudioRef s \<and>
   fallbackTimerRef (handleBack s) = fallbackTimerRef s \<and>
   audios (handleBack s) = audios s \<and> timers (handleBack s) = timers s \<and>
   \<not> showAll (handleBack s) \<and>
   showAll (handlePause s) = showAll s \<and>
   showAll (handleResume stanzas accepted s) = showAll s \<and>
   showAll (handleStop s) = showAll s \<and>
   showAll (handleReplay s) = showAll s \<and>
   showAll (playStanza stanzas i s) = showAll s \<and>
   showAll (handleEnded stanzas a s) = showAll s \<and>
   showAll (handleCanPlay a accepted s) = showAll s \<and>
   showAll (handleError a s) = showAll s \<and>
   showAll (probe a s) = showAll s \<and>
   showAll (runTimer stanzas t s) =
     (case callback (timers s ! t) of DeferredPlay \<Rightarrow> False | _ \<Rightarrow> showAll s) \<and>
   \<not> showAll (handlePlay stanzas s)"
proof -
  have p: "\<And>i s. showAll (playStanza stanzas i s) = showAll s"
    by (simp add: playStanza_def setTimeout_def)
  have c: "\<And>t s. showAll (clearTimeout t s) = showAll s"
    by (simp add: clearTimeout_def)
  have u: "\<And>a s. showAll (useFallback a s) = showAll s"
    by (simp add: useFallback_def setTimeout_def Let_def)
  have e: "\<And>a s. showAll (handleError a s) = showAll s"
    by (simp add: handleError_def u)
  have pr: "\<And>a s. showAll (probe a s) = showAll s"
    by (simp add: probe_def e)
  have st: "showAll (handleStop s) = showAll s"
    by (simp add: handleStop_def Let_def audio_pause_def c split: option.splits)
  have pl: "\<And>s. \<not> showAll (handlePlay stanzas s)"
    by (simp add: handlePlay_def p)
  have 1: "showAll (handlePause s) = showAll s"
    by (simp add: handlePause_def Let_def audio_pause_def c split: option.splits)
  have 2: "showAll (handleResume stanzas accepted s) = showAll s"
    by (simp add: handleResume_def Let_def audio_play_def p split: option.splits)
  have 3: "showAll (handleReplay s) = showAll s"
    by (simp add: handleReplay_def setTimeout_def st)
  have 4: "showAll (handleEnded stanzas a s) = showAll s"
    by (simp add: handleEnded_def p c split: option.splits)
  have 5: "showAll (handleCanPlay a accepted s) = showAll s"
    by (simp add: handleCanPlay_def Let_def audio_play_def u)
  have 6: "showAll (runTimer stanzas t s) =
     (case callback (timers s ! t) of DeferredPlay \<Rightarrow> False | _ \<Rightarrow> showAll s)"
    by (simp add: runTimer_def Let_def p pr pl split: callback.splits)
  show ?thesis
    by (simp add: handleShowAll_def handleBack_def p e pr st pl 1 2 3 4 5 6)
qed

subsection \<open>Fallback on failure\<close>

lemma useFallback_fields:
  "console (useFallback a s) = console s"
  "timers (useFallback a s) = timers s @
     [\<lparr>delay_ms = 10000, callback = Advance (stanza_index (audios s ! a)), pending = True\<rparr>]"
  "fallbackTimerRef (useFallback a s) = Some (length (timers s))"
  "playState (useFallback a s) = playState s"
  "currentStanzaIndex (useFallback a s) = currentStanzaIndex s"
  "currentAudioRef (useFallback a s) = currentAudioRef s"
  "entered (useFallback a s) = entered s"
  by (simp_all add: useFallback_def setTimeout_def Let_def entered_def map_update_keep)

lemma fallback_expiry:
  assumes t: "timers u = ts @ [\<lparr>delay_ms = 10000, callback = Advance i, pending = True\<rparr>]"
  shows "\<exists>s''. fire stanzas (TimerFires (length ts)) u = Some s'' \<and>
     (if i + 1 < length stanzas
      then currentStanzaIndex s'' = i + 1 \<and> playState s'' = playState u \<and>
           entered s'' = entered u @ [i + 1] \<and> currentAudioRef s'' = Some (length (audios u))
      else playState s'' = Ended \<and> currentStanzaIndex s'' = currentStanzaIndex u \<and>
           entered s'' = entered u)"
proof -
  define u1 where "u1 = u\<lparr>timers := (timers u)[length ts := (timers u ! length ts)\<lparr>pending := False\<rparr>]\<rparr>"
  have f: "fire stanzas (TimerFires (length ts)) u = Some (playStanza stanzas (i + 1) u1)"
    by (simp add: t runTimer_def Let_def u1_def)
  have u1: "playState u1 = playState u" "currentStanzaIndex u1 = currentStanzaIndex u"
    "entered u1 = entered u" "audios u1 = audios u"
    by (simp_all add: u1_def entered_def)
  show ?thesis
  proof (cases "i + 1 < length stanzas")
    case True
    then show ?thesis
      using f u1 playStanza_inside [OF True, of u1] by simp
  next
    case False
    then have "playStanza stanzas (i + 1) u1 = u1\<lparr>playState := Ended\<rparr>"
      by (simp add: playStanza_beyond)
    with False f u1 show ?thesis by (simp add: entered_def)
  qed
qed

text \<open>
  Claim C7. Let \<open>a\<close> be an audio element, created for stanza index \<open>i\<close>. When its
  \<open>error\<close> event fires, or its probe timer expires before it has loaded, or it loads and
  the play request is rejected, one warning naming stanza \<open>i + 1\<close> is logged, one new timer
  of 10000 ms is armed and stored in \<open>fallbackTimerRef\<close>, and play state, stanza index and
  audio handle are unchanged. The new timer can fire, and when it does \<open>playStanza (i + 1)\<close>
  runs: for \<open>i + 1 < N\<close> the index becomes \<open>i + 1\<close> and a new audio element is created
  for it, otherwise the state becomes \<open>Ended\<close>.
\<close>

theorem failure_arms_fallback:
  assumes "fire stanzas e s = Some s'" and "a < length (audios s)"
    and "e = AudioError a \<or> e = AudioCanPlay a False \<or>
         (\<exists>t. e = TimerFires t \<and> callback (timers s ! t) = Probe a \<and>
              \<not> audioLoaded (audios s ! a))"
  shows "(console s' = console s @ [LoadWarning (stanza_index (audios s ! a) + 1)] \<or>
          console s' = console s @ [PlayWarning (stanza_index (audios s ! a) + 1)]) \<and>
     length (timers s') = Suc (length (timers s)) \<and>
     timers s' ! length (timers s) =
       \<lparr>delay_ms = 10000, callback = Advance (stanza_index (audios s ! a)), pending = True\<rparr> \<and>
     fallbackTimerRef s' = Some (length (timers s)) \<and>
     playState s' = playState s \<and> currentStanzaIndex s' = currentStanzaIndex s \<and>
     currentAudioRef s' = currentAudioRef s \<and> entered s' = entered s \<and>
     (\<exists>s''. fire stanzas (TimerFires (length (timers s))) s' = Some s'' \<and>
        (if stanza_index (audios s ! a) + 1 < length stanzas
         then currentStanzaIndex s'' = stanza_index (audios s ! a) + 1 \<and>
              playState s'' = playState s \<and>
              entered s'' = entered s @ [stanza_index (audios s ! a) + 1] \<and>
              currentAudioRef s'' = Some (length (audios s))
         else playState s'' = Ended \<and> currentStanzaIndex s'' = currentStanzaIndex s \<and>
              entered s'' = entered s))"
proof -
  define i where "i = stanza_index (audios s ! a)"
  have "\<exists>s0 w. s' = useFallback a s0 \<and> console s0 = console s @ [w] \<and>
      (w = LoadWarning (i + 1) \<or> w = PlayWarning (i + 1)) \<and>
      length (timers s0) = length (timers s) \<and> length (audios s0) = length (audios s) \<and>
      stanza_index (audios s0 ! a) = i \<and>
      playState s0 = playState s \<and> currentStanzaIndex s0 = currentStanzaIndex s \<and>
      currentAudioRef s0 = currentAudioRef s \<and> entered s0 = entered s"
    using assms(3)
  proof (elim disjE exE conjE)
    assume "e = AudioError a"
    with assms(1,2) have "s' = useFallback a (s\<lparr>console := console s @ [LoadWarning (i + 1)]\<rparr>)"
      by (simp add: handleError_def i_def)
    then show ?thesis
      by (intro exI [of _ "s\<lparr>console := console s @ [LoadWarning (i + 1)]\<rparr>"]
          exI [of _ "LoadWarning (i + 1)"]) (simp add: i_def entered_def)
  next
    assume "e = AudioCanPlay a False"
    with assms(1,2) have "s' = useFallback a
        (s\<lparr>audios := (audios s)[a := (audios s ! a)\<lparr>audioLoaded := True\<rparr>],
           console := console s @ [PlayWarning (i + 1)]\<rparr>)"
      by (simp add: handleCanPlay_def i_def Let_def)
    then show ?thesis
      using assms(2)
      by (intro exI [of _ "s\<lparr>audios := (audios s)[a := (audios s ! a)\<lparr>audioLoaded := True\<rparr>],
           console := console s @ [PlayWarning (i + 1)]\<rparr>"]
          exI [of _ "PlayWarning (i + 1)"]) (simp add: i_def entered_def map_update_keep)
  next
    fix t assume e: "e = TimerFires t" and c: "callback (timers s ! t) = Probe a"
      and l: "\<not> audioLoaded (audios s ! a)"
    with assms(1,2) have "s' = useFallback a
        (s\<lparr>timers := (timers s)[t := (timers s ! t)\<lparr>pending := False\<rparr>],
           console := console s @ [LoadWarning (i + 1)]\<rparr>)"
      by (simp add: runTimer_def probe_def handleError_def i_def Let_def split: if_splits)
    then show ?thesis
      by (intro exI [of _ "s\<lparr>timers := (timers s)[t := (timers s ! t)\<lparr>pending := False\<rparr>],
           console := console s @ [LoadWarning (i + 1)]\<rparr>"]
          exI [of _ "LoadWarning (i + 1)"]) (simp add: i_def entered_def)
  qed
  then obtain s0 w where s': "s' = useFallback a s0" and w: "console s0 = console s @ [w]"
    "w = LoadWarning (i + 1) \<or> w = PlayWarning (i + 1)"
    and s0: "length (timers s0) = length (timers s)" "length (audios s0) = length (audios s)"
      "stanza_index (audios s0 ! a) = i" "playState s0 = playState s"
      "currentStanzaIndex s0 = currentStanzaIndex s" "currentAudioRef s0 = currentAudioRef s"
      "entered s0 = entered s"
    by blast
  have tm: "timers s' = timers s0 @ [\<lparr>delay_ms = 10000, callback = Advance i, pending = True\<rparr>]"
    by (simp add: s' useFallback_fields s0)
  have eqs: "length (timers s0) = length (timers s)" "playState s' = playState s"
    "currentStanzaIndex s' = currentStanzaIndex s" "entered s' = entered s"
    "length (audios s') = length (audios s)" "currentAudioRef s' = currentAudioRef s"
    using s0 by (simp_all add: s' useFallback_fields) (simp add: useFallback_def setTimeout_def Let_def)
  have fx: "\<exists>s''. fire stanzas (TimerFires (length (timers s))) s' = Some s'' \<and>
      (if i + 1 < length stanzas
       then currentStanzaIndex s'' = i + 1 \<and> playState s'' = playState s \<and>
            entered s'' = entered s @ [i + 1] \<and> currentAudioRef s'' = Some (length (audios s))
       else playState s'' = Ended \<and> currentStanzaIndex s'' = currentStanzaIndex s \<and>
            entered s'' = entered s)"
    using fallback_expiry [OF tm, of stanzas] by (simp only: eqs)
  have cs: "console s' = console s @ [w]" "fallbackTimerRef s' = Some (length (timers s))"
    "length (timers s') = Suc (length (timers s))"
    "timers s' ! length (timers s) = \<lparr>delay_ms = 10000, callback = Advance i, pending = True\<rparr>"
    using w(1) eqs(1) s0(3) by (simp_all add: s' useFallback_fields nth_append)
  from w(2) have "console s' = console s @ [LoadWarning (i + 1)] \<or>
      console s' = console s @ [PlayWarning (i + 1)]"
    using cs(1) by auto
  then show ?thesis
    unfolding i_def [symmetric] using cs(2-4) eqs(2,3,4,6) fx by (intro conjI)
qed

theorem failure_arms_fallback_witness:
  "fire two_stanzas (AudioError 0) started_1 = Some missing_2 \<and>
   0 < length (audios started_1) \<and>
   console missing_2 = console started_1 @ [LoadWarning 1] \<and>
   timers missing_2 ! 1 = \<lparr>delay_ms = 10000, callback = Advance 0, pending = True\<rparr> \<and>
   fallbackTimerRef missing_2 = Some 1 \<and>
   playState missing_2 = playState started_1 \<and>
   (case fire two_stanzas (TimerFires 1) missing_2 of
      None \<Rightarrow> False
    | Some s'' \<Rightarrow> currentStanzaIndex s'' = 1 \<and> playState s'' = Playing \<and>
        entered s'' = [0, 1] \<and> currentAudioRef s'' = Some 1)"
proof -
  have a: "0 < length (audios started_1)" by (simp add: started_1_def)
  have f: "stanza_index (audios started_1 ! 0) = 0" "length (timers started_1) = 1"
    "length two_stanzas = 2" "entered started_1 = [0]" "playState started_1 = Playing"
    "length (audios started_1) = 1" "console started_1 = []"
    by (simp_all add: started_1_def two_stanzas_def entered_def)
  have e: "AudioError 0 = AudioError 0 \<or> AudioError 0 = AudioCanPlay 0 False \<or>
      (\<exists>t. AudioError 0 = TimerFires t \<and> callback (timers started_1 ! t) = Probe 0 \<and>
              \<not> audioLoaded (audios started_1 ! 0))"
    by simp
  note th = failure_arms_fallback [OF fire_missing_2 a e]
  from th obtain s'' where s: "fire two_stanzas (TimerFires 1) missing_2 = Some s''"
    and "currentStanzaIndex s'' = 1 \<and> playState s'' = Playing \<and>
        entered s'' = [0, 1] \<and> currentAudioRef s'' = Some 1"
    unfolding f by (auto simp del: fire.simps)
  moreover from th have "console missing_2 = console started_1 @ [LoadWarning 1]"
    "timers missing_2 ! 1 = \<lparr>delay_ms = 10000, callback = Advance 0, pending = True\<rparr>"
    "fallbackTimerRef missing_2 = Some 1" "playState missing_2 = playState started_1"
    unfolding f by (simp_all add: missing_2_def)
  ultimately show ?thesis
    using a fire_missing_2 by (simp del: fire.simps)
qed

subsection \<open>Pause and resume\<close>

text \<open>
  Claim C8, evaluated on two stanzas. In the run \<open>paused_4 \<dots> paused_6\<close> the asset of
  stanza 1 is missing, so two fallback timers are pending when pause is pressed; pause
  clears the one in \<open>fallbackTimerRef\<close> and the other stays pending, fires while the state
  is \<open>Paused\<close> and runs \<open>playStanza 1\<close>; resume then continues at index 1. In the run
  \<open>early_2 \<dots> early_5\<close> pause is pressed before the probe timer expires; the probe is not
  cancelled, arms a fallback timer while the state is \<open>Paused\<close>, and resume again
  continues at index 1.
\<close>

theorem resume_after_stale_fallback:
  "map_option (\<lambda>s. (playState s, currentStanzaIndex s, pending_fallbacks s))
     (run two_stanzas [ClickPlay, AudioError 0, TimerFires 0, ClickPause] init)
     = Some (Paused, 0, [1]) \<and>
   map_option (\<lambda>s. (playState s, currentStanzaIndex s, entered s))
     (run two_stanzas
        [ClickPlay, AudioError 0, TimerFires 0, ClickPause, TimerFires 1, ClickResume True] init)
     = Some (Playing, 1, [0, 1]) \<and>
   map_option (\<lambda>s. (playState s, currentStanzaIndex s, pending (timers s ! 0)))
     (run two_stanzas [ClickPlay, ClickPause] init)
     = Some (Paused, 0, True) \<and>
   map_option (\<lambda>s. (playState s, currentStanzaIndex s, entered s))
     (run two_stanzas [ClickPlay, ClickPause, TimerFires 0, TimerFires 1, ClickResume True] init)
     = Some (Playing, 1, [0, 1])"
  unfolding run_paused_4 run_paused_6 run_early_2 run_early_5
  by (simp add: paused_4_def paused_6_def early_2_def early_5_def pending_fallbacks_def
      entered_def upt_conv_Cons)

subsection \<open>Sound effects at word boundaries\<close>

lemma js_startsWith_iff: "js_startsWith xs p \<longleftrightarrow> (\<exists>bs. xs = p @ bs)"
  by (induction xs p rule: js_startsWith.induct) auto

lemma js_includes_iff: "js_includes xs p \<longleftrightarrow> (\<exists>as bs. xs = as @ p @ bs)"
proof (induction xs)
  case Nil
  then show ?case by (cases p) simp_all
next
  case (Cons x xs)
  show ?case
  proof
    assume "js_includes (x # xs) p"
    then consider "js_startsWith (x # xs) p" | "js_includes xs p" by auto
    then show "\<exists>as bs. x # xs = as @ p @ bs"
    proof cases
      case 1
      then obtain bs where "x # xs = p @ bs" by (auto simp: js_startsWith_iff)
      then have "x # xs = [] @ p @ bs" by simp
      then show ?thesis by blast
    next
      case 2
      with Cons obtain as bs where "xs = as @ p @ bs" by blast
      then have "x # xs = (x # as) @ p @ bs" by simp
      then show ?thesis by blast
    qed
  next
    assume "\<exists>as bs. x # xs = as @ p @ bs"
    then obtain as bs where e: "x # xs = as @ p @ bs" by blast
    show "js_includes (x # xs) p"
    proof (cases as)
      case Nil
      with e have "js_startsWith (x # xs) p" by (auto simp: js_startsWith_iff)
      then show ?thesis by simp
    next
      case (Cons a as')
      with e have "xs = as' @ p @ bs" by simp
      with Cons.IH have "js_includes xs p" by blast
      then show ?thesis by simp
    qed
  qed
qed

lemma js_includes_take_mono:
  assumes "js_includes (take k xs) p" and "k \<le> k'"
  shows "js_includes (take k' xs) p"
proof -
  from assms(1) obtain as bs where e: "take k xs = as @ p @ bs"
    by (auto simp: js_includes_iff)
  from assms(2) have "take k' xs = take k xs @ take (k' - k) (drop k xs)"
    by (metis le_add_diff_inverse take_add)
  with e have "take k' xs = as @ p @ (bs @ take (k' - k) (drop k xs))" by simp
  then show ?thesis unfolding js_includes_iff by blast
qed

lemma js_substring_0: "js_substring 0 k xs = take k xs"
  by (simp add: js_substring_def)

lemma onboundary_fields:
  "soundEffects (onboundary calavera k s) = soundEffects s"
  "count_list (effects_played (onboundary calavera k s)) ''chains'' =
     count_list (effects_played s) ''chains'' +
     (if ''chains'' \<in> set (soundEffects s) \<and> chains_due calavera k then 1 else 0)"
  by (simp_all add: onboundary_def playSoundEffect_def chains_due_def Let_def)

lemma boundaries_chains:
  "count_list (effects_played (boundaries calavera ks s)) ''chains'' =
     count_list (effects_played s) ''chains'' +
     (if ''chains'' \<in> set (soundEffects s) then length (filter (chains_due calavera) ks) else 0)"
  by (induction ks arbitrary: s) (simp_all add: onboundary_fields)

lemma sample_due:
  "filter (chains_due sample_poem) sample_boundaries = [16, 19]"
  by (simp add: sample_boundaries_def chains_due_def sample_poem_def js_def js_substring_def
      trigger_chains_def trigger_chains_stop_def)

text \<open>
  On the sample text the boundaries 16 and 19 both lie after \<open>la Calaca\<close> and before the
  end of \<open>la Calaca, la mera-mera\<close>: the chains effect is played twice in one pass.
\<close>

theorem chains_fires_twice:
  "count_list (effects_played (boundaries sample_poem sample_boundaries (mounted True [])))
     ''chains'' = 2"
  by (simp add: boundaries_chains sample_due mounted_def)

text \<open>
  Claim C5, amended. In one narration pass the chains effect is played once for every
  reported boundary whose consumed prefix contains \<open>la Calaca\<close> and not yet
  \<open>la Calaca, la mera-mera\<close>, and at no other boundary. Once the prefix at a boundary
  contains the longer string, no later boundary plays the effect; and the boundaries that
  play it are consecutive among those whose prefix contains the trigger.
\<close>

theorem chains_fires_in_window:
  "count_list (effects_played (boundaries calavera ks s)) ''chains'' =
     count_list (effects_played s) ''chains'' +
     (if ''chains'' \<in> set (soundEffects s) then length (filter (chains_due calavera) ks) else 0) \<and>
   (k \<le> k' \<and> js_includes (js_substring 0 k calavera) trigger_chains_stop
      \<longrightarrow> \<not> chains_due calavera k') \<and>
   (chains_due calavera k' \<and> k \<le> k' \<and> js_includes (js_substring 0 k calavera) trigger_chains
      \<longrightarrow> chains_due calavera k)"
proof (intro conjI impI)
  show "count_list (effects_played (boundaries calavera ks s)) ''chains'' =
     count_list (effects_played s) ''chains'' +
     (if ''chains'' \<in> set (soundEffects s) then length (filter (chains_due calavera) ks) else 0)"
    by (rule boundaries_chains)
next
  assume "k \<le> k' \<and> js_includes (js_substring 0 k calavera) trigger_chains_stop"
  then show "\<not> chains_due calavera k'"
    using js_includes_take_mono [of k calavera trigger_chains_stop k']
    by (simp add: chains_due_def js_substring_0)
next
  assume "chains_due calavera k' \<and> k \<le> k' \<and>
    js_includes (js_substring 0 k calavera) trigger_chains"
  then show "chains_due calavera k"
    using js_includes_take_mono [of k calavera trigger_chains_stop k']
    by (auto simp: chains_due_def js_substring_0)
qed

theorem chains_fires_in_window_witness:
  "count_list (effects_played (boundaries sample_poem sample_boundaries (mounted True [])))
     ''chains'' = 0 + length [16, 19 :: nat] \<and>
   (30::nat) \<le> 35 \<and> js_includes (js_substring 0 30 sample_poem) trigger_chains_stop \<and>
   \<not> chains_due sample_poem 35 \<and>
   chains_due sample_poem 19 \<and> (16::nat) \<le> 19 \<and>
   js_includes (js_substring 0 16 sample_poem) trigger_chains \<and> chains_due sample_poem 16"
proof -
  have a: "js_includes (js_substring 0 30 sample_poem) trigger_chains_stop"
    "js_includes (js_substring 0 16 sample_poem) trigger_chains"
    "chains_due sample_poem 19"
    by (simp_all add: chains_due_def sample_poem_def js_def js_substring_def
      trigger_chains_def trigger_chains_stop_def)
  have m: "''chains'' \<in> set (soundEffects (mounted True []))" "effects_played (mounted True []) = []"
    by (simp_all add: mounted_def)
  from chains_fires_in_window [of sample_poem sample_boundaries "mounted True []" 30 35] a
  have 1: "count_list (effects_played (boundaries sample_poem sample_boundaries (mounted True [])))
     ''chains'' = 0 + length [16, 19 :: nat]" and 2: "\<not> chains_due sample_poem 35"
    by (simp_all add: m sample_due)
  from chains_fires_in_window [of sample_poem sample_boundaries "mounted True []" 16 19] a
  have 3: "chains_due sample_poem 16" by simp
  show ?thesis using a 1 2 3 by simp
qed

subsection \<open>Starting the narration\<close>

text \<open>
  Without speech synthesis support \<open>handlePlay\<close> only shows the alert: after two
  calls there is no utterance.
\<close>

theorem play_refused_when_unsupported:
  "length (synth_queue (handlePlay_tts sample_poem (handlePlay_tts sample_poem
     (mounted False spanish_voices)))) = 0 \<and>
   utteranceRef (handlePlay_tts sample_poem (mounted False spanish_voices)) = None"
  by (simp add: handlePlay_tts_def mounted_def)

lemma find_voice:
  "case find P vs of None \<Rightarrow> \<not> list_ex P vs | Some v \<Rightarrow> v \<in> set vs \<and> P v"
  by (induction vs) (auto split: option.splits)

text \<open>
  Claim C6, amended. When speech synthesis is supported, \<open>handlePlay\<close> leaves exactly the
  one new utterance in the engine's queue, whatever was queued before, and keeps it in
  \<open>utteranceRef\<close>; two calls in succession leave one utterance. The utterance carries the
  full text, rate 0.9, pitch 1, volume 1 and language \<open>es-MX\<close>; its voice is an enumerated
  voice whose language starts with \<open>es\<close> when there is one and the default otherwise.
  When speech synthesis is not supported, \<open>handlePlay\<close> only raises the alert.
\<close>

theorem play_single_utterance:
  "(isSupported s \<longrightarrow>
      synth_queue (handlePlay_tts calavera s) = [new_utterance calavera (synth_voices s)] \<and>
      utteranceRef (handlePlay_tts calavera s) = Some (new_utterance calavera (synth_voices s)) \<and>
      length (synth_queue (handlePlay_tts calavera (handlePlay_tts calavera s))) = 1 \<and>
      audioState (handlePlay_tts calavera s) = audioState s) \<and>
   (\<not> isSupported s \<longrightarrow> handlePlay_tts calavera s = s\<lparr>alerts := alerts s + 1\<rparr>) \<and>
   u_text (new_utterance calavera vs) = calavera \<and>
   u_rate (new_utterance calavera vs) = 9 / 10 \<and>
   u_pitch (new_utterance calavera vs) = 1 \<and>
   u_volume (new_utterance calavera vs) = 1 \<and>
   u_lang (new_utterance calavera vs) = js ''es-MX'' \<and>
   (case u_voice (new_utterance calavera vs) of
      None \<Rightarrow> \<not> list_ex (\<lambda>v. js_startsWith (voice_lang v) (js ''es'')) vs
    | Some v \<Rightarrow> v \<in> set vs \<and> js_startsWith (voice_lang v) (js ''es''))"
proof -
  have q: "isSupported s \<Longrightarrow>
      handlePlay_tts calavera s =
        s\<lparr>synth_queue := [new_utterance calavera (synth_voices s)],
          utteranceRef := Some (new_utterance calavera (synth_voices s))\<rparr>"
    for s
    by (simp add: handlePlay_tts_def synth_cancel_def synth_speak_def Let_def)
  have n: "\<not> isSupported s \<Longrightarrow> handlePlay_tts calavera s = s\<lparr>alerts := alerts s + 1\<rparr>"
    by (simp add: handlePlay_tts_def)
  have f: "u_text (new_utterance calavera vs) = calavera"
    "u_rate (new_utterance calavera vs) = 9 / 10"
    "u_pitch (new_utterance calavera vs) = 1"
    "u_volume (new_utterance calavera vs) = 1"
    "u_lang (new_utterance calavera vs) = js ''es-MX''"
    "u_voice (new_utterance calavera vs)
       = find (\<lambda>v. js_startsWith (voice_lang v) (js ''es'')) vs"
    by (simp_all add: new_utterance_def)
  have 1: "isSupported s \<longrightarrow>
      synth_queue (handlePlay_tts calavera s) = [new_utterance calavera (synth_voices s)] \<and>
      utteranceRef (handlePlay_tts calavera s) = Some (new_utterance calavera (synth_voices s)) \<and>
      length (synth_queue (handlePlay_tts calavera (handlePlay_tts calavera s))) = 1 \<and>
      audioState (handlePlay_tts calavera s) = audioState s"
  proof
    assume s: "isSupported s"
    then have s': "isSupported (handlePlay_tts calavera s)" by (simp add: q)
    show "synth_queue (handlePlay_tts calavera s) = [new_utterance calavera (synth_voices s)] \<and>
      utteranceRef (handlePlay_tts calavera s) = Some (new_utterance calavera (synth_voices s)) \<and>
      length (synth_queue (handlePlay_tts calavera (handlePlay_tts calavera s))) = 1 \<and>
      audioState (handlePlay_tts calavera s) = audioState s"
      by (simp add: q [OF s'] ) (simp add: q [OF s])
  qed
  show ?thesis
    using 1 n find_voice [of "\<lambda>v. js_startsWith (voice_lang v) (js ''es'')" vs]
    unfolding f by (intro conjI impI) simp_all
qed

theorem play_single_utterance_witness:
  "isSupported (mounted True spanish_voices) \<and>
   length (synth_queue (handlePlay_tts sample_poem
     (handlePlay_tts sample_poem (mounted True spanish_voices)))) = 1 \<and>
   synth_queue (handlePlay_tts sample_poem (mounted True spanish_voices))
     = [new_utterance sample_poem spanish_voices] \<and>
   u_voice (new_utterance sample_poem spanish_voices)
     = Some \<lparr>voice_name = js ''Paulina'', voice_lang = js ''es-MX''\<rparr> \<and>
   \<not> isSupported (mounted False spanish_voices) \<and>
   handlePlay_tts sample_poem (mounted False spanish_voices)
     = (mounted False spanish_voices)\<lparr>alerts := 1\<rparr>"
proof -
  have m: "isSupported (mounted True spanish_voices)" "\<not> isSupported (mounted False spanish_voices)"
    "synth_voices (mounted True spanish_voices) = spanish_voices"
    "alerts (mounted False spanish_voices) = 0"
    by (simp_all add: mounted_def)
  have v: "u_voice (new_utterance sample_poem spanish_voices)
     = Some \<lparr>voice_name = js ''Paulina'', voice_lang = js ''es-MX''\<rparr>"
    by (simp add: new_utterance_def spanish_voices_def js_def)
  show ?thesis
    using play_single_utterance [of "mounted True spanish_voices" sample_poem spanish_voices]
      play_single_utterance [of "mounted False spanish_voices" sample_poem spanish_voices] m v
    by simp
qed

end
